theory Spec2Isabelle
  imports Main
begin

section \<open>Data model of actions/os_actions.py\<close>

text \<open>
  The module is glue code: every function is a short sequence of calls into charmhelpers,
  the neutron client and the hook modules. The embedding keeps the control flow of each
  function as it is written and replaces the collaborators by an explicit world: the calls
  made so far (in order), the values the stores hand back, and an oracle saying which
  collaborator call raises and with which message.
\<close>

text \<open>\<open>hookenv.WORKLOAD_STATES\<close>: an enumeration whose \<open>value\<close> is the lower-case name.\<close>

datatype WORKLOAD_STATES = ACTIVE | BLOCKED | MAINTENANCE | WAITING

fun ws_value :: "WORKLOAD_STATES \<Rightarrow> string" where
  "ws_value ACTIVE = ''active''"
| "ws_value BLOCKED = ''blocked''"
| "ws_value MAINTENANCE = ''maintenance''"
| "ws_value WAITING = ''waiting''"

datatype log_level = DEBUG | WARNING

text \<open>An agent dictionary as the neutron API returns it (the five keys of the test data).\<close>

record agent =
  agent_id :: string
  agent_type :: string
  binary :: string
  agent_host :: string
  admin_state_up :: bool

text \<open>
  What \<open>action_get\<close> and \<open>config\<close> hand back: \<open>None\<close> for a key without a value,
  a boolean or a string. \<open>truthy\<close> is Python's truth value of such an object.
\<close>

datatype pval = PNone | PBool bool | PStr string

fun truthy :: "pval \<Rightarrow> bool" where
  "truthy PNone = False"
| "truthy (PBool b) = b"
| "truthy (PStr s) = (s \<noteq> [])"

text \<open>The dictionary built by \<open>HostInfoContext(...)()\<close>, read with \<open>.get\<close> at three keys.\<close>

record host_info =
  use_fqdn_hint :: bool
  host_fqdn :: string
  host :: string

text \<open>Every call that leaves the module, with its arguments.\<close>

datatype call =
    Log string "log_level option"
  | Config string
  | ActionGet string
  | ActionFail string
  | FunctionFail string
  | FunctionSet "(string \<times> string) list"
  | StatusGet
  | StatusSet WORKLOAD_STATES string
  | GetNeutron
  | HostInfoContext
  | GetNetworkAgentsOnHost string
  | UpdateAgent string bool
  | DeleteAgent string
  | ServicePause string
  | ServiceResume string
  | RegisterConfigs
  | PauseUnitHelper string "string list"
  | ResumeUnitHelper string "string list"
  | RestartServicesAction "string list option" bool
  | AssessStatus string
  | IsRestartPermitted
  | GetDeferredHooks
  | ConfigChanged bool
  | ClearDeferredHook string
  | ShowDeferredEventsActionHelper

text \<open>
  The world outside the module. \<open>raises\<close> decides, from the calls made so far and the call
  about to be made, whether that call raises an \<open>Exception\<close> and with which \<open>str(e)\<close>.
  \<open>configs\<close> stands for the object returned by \<open>register_configs()\<close>.
\<close>

record world =
  trace :: "call list"
  raises :: "call list \<Rightarrow> call \<Rightarrow> string option"
  config_store :: "string \<Rightarrow> pval"
  action_params :: "string \<Rightarrow> pval"
  status :: "string \<times> string"
  host_info_ctx :: host_info
  api_agents :: "string \<Rightarrow> agent list"
  restart_permitted :: bool
  deferred_hooks :: "string list"
  configs :: string

section \<open>Effects: state passing with exceptions as values\<close>

text \<open>
  A Python function becomes a function from the world to an outcome and the world after it:
  \<open>Inl msg\<close> is a raised \<open>Exception\<close> whose \<open>str\<close> is \<open>msg\<close>, \<open>Inr v\<close> a normal return.
\<close>

type_synonym 'a act = "world \<Rightarrow> (string + 'a) \<times> world"

definition return_act :: "'a \<Rightarrow> 'a act" where
  "return_act v w = (Inr v, w)"

definition raise_act :: "string \<Rightarrow> 'a act" where
  "raise_act e w = (Inl e, w)"

definition bind_act :: "'a act \<Rightarrow> ('a \<Rightarrow> 'b act) \<Rightarrow> 'b act" where
  "bind_act m f w = (case m w of (Inl e, w') \<Rightarrow> (Inl e, w') | (Inr v, w') \<Rightarrow> f v w')"

definition then_act :: "'a act \<Rightarrow> 'b act \<Rightarrow> 'b act" where
  "then_act m n = bind_act m (\<lambda>_. n)"

text \<open>A \<open>for x in xs:\<close> loop whose body returns nothing; an exception ends it.\<close>

fun for_each :: "('a \<Rightarrow> unit act) \<Rightarrow> 'a list \<Rightarrow> unit act" where
  "for_each body [] = return_act ()"
| "for_each body (x # xs) = then_act (body x) (for_each body xs)"

definition record_call :: "call \<Rightarrow> world \<Rightarrow> world" where
  "record_call c w = w\<lparr>trace := trace w @ [c]\<rparr>"

text \<open>
  The primitives of \<open>charmhelpers.core.hookenv\<close> (logging, parameters, configuration, status
  and result reporting) are taken as total: they record the call and return.
\<close>

definition hookenv :: "call \<Rightarrow> 'a \<Rightarrow> 'a act" where
  "hookenv c v w = (Inr v, record_call c w)"

text \<open>
  Every other collaborator (neutron client, service manager, charm helpers, hook handlers,
  deferred-event store) may raise: the oracle is asked, the call is recorded either way.
\<close>

definition collaborator :: "call \<Rightarrow> 'a \<Rightarrow> 'a act" where
  "collaborator c v w =
     (case raises w (trace w) c of
        Some e \<Rightarrow> (Inl e, record_call c w)
      | None \<Rightarrow> (Inr v, record_call c w))"

subsection \<open>hookenv\<close>

definition log :: "string \<Rightarrow> log_level option \<Rightarrow> unit act" where
  "log msg level = hookenv (Log msg level) ()"

definition config :: "string \<Rightarrow> pval act" where
  "config key w = hookenv (Config key) (config_store w key) w"

definition action_get :: "string \<Rightarrow> pval act" where
  "action_get key w = hookenv (ActionGet key) (action_params w key) w"

definition action_fail :: "string \<Rightarrow> unit act" where
  "action_fail msg = hookenv (ActionFail msg) ()"

definition function_fail :: "string \<Rightarrow> unit act" where
  "function_fail msg = hookenv (FunctionFail msg) ()"

definition function_set :: "(string \<times> string) list \<Rightarrow> unit act" where
  "function_set kv = hookenv (FunctionSet kv) ()"

definition status_get :: "(string \<times> string) act" where
  "status_get w = hookenv StatusGet (status w) w"

text \<open>The status store keeps the last pair written to it.\<close>

definition status_set :: "WORKLOAD_STATES \<Rightarrow> string \<Rightarrow> unit act" where
  "status_set st msg w =
     (Inr (), record_call (StatusSet st msg) (w\<lparr>status := (ws_value st, msg)\<rparr>))"

subsection \<open>Collaborators that may raise\<close>

definition get_neutron :: "unit act" where
  "get_neutron = collaborator GetNeutron ()"

definition HostInfoContext_call :: "host_info act" where
  "HostInfoContext_call w = collaborator HostInfoContext (host_info_ctx w) w"

definition get_network_agents_on_host :: "string \<Rightarrow> agent list act" where
  "get_network_agents_on_host host_name w =
     collaborator (GetNetworkAgentsOnHost host_name) (api_agents w host_name) w"

definition update_agent :: "string \<Rightarrow> bool \<Rightarrow> unit act" where
  "update_agent aid st = collaborator (UpdateAgent aid st) ()"

definition delete_agent :: "string \<Rightarrow> unit act" where
  "delete_agent aid = collaborator (DeleteAgent aid) ()"

definition service_pause :: "string \<Rightarrow> unit act" where
  "service_pause name = collaborator (ServicePause name) ()"

definition service_resume :: "string \<Rightarrow> unit act" where
  "service_resume name = collaborator (ServiceResume name) ()"

definition register_configs :: "string act" where
  "register_configs w = collaborator RegisterConfigs (configs w) w"

definition pause_unit_helper :: "string \<Rightarrow> string list \<Rightarrow> unit act" where
  "pause_unit_helper cfgs exclude_services =
     collaborator (PauseUnitHelper cfgs exclude_services) ()"

definition resume_unit_helper :: "string \<Rightarrow> string list \<Rightarrow> unit act" where
  "resume_unit_helper cfgs exclude_services =
     collaborator (ResumeUnitHelper cfgs exclude_services) ()"

definition restart_services_action :: "string list option \<Rightarrow> bool \<Rightarrow> unit act" where
  "restart_services_action services deferred_only =
     collaborator (RestartServicesAction services deferred_only) ()"

definition assess_status :: "string \<Rightarrow> unit act" where
  "assess_status cfgs = collaborator (AssessStatus cfgs) ()"

definition is_restart_permitted :: "bool act" where
  "is_restart_permitted w = collaborator IsRestartPermitted (restart_permitted w) w"

definition get_deferred_hooks :: "string list act" where
  "get_deferred_hooks w = collaborator GetDeferredHooks (deferred_hooks w) w"

definition config_changed :: "bool \<Rightarrow> unit act" where
  "config_changed check_deferred_restarts =
     collaborator (ConfigChanged check_deferred_restarts) ()"

definition clear_deferred_hook :: "string \<Rightarrow> unit act" where
  "clear_deferred_hook name = collaborator (ClearDeferredHook name) ()"

definition show_deferred_events_action_helper :: "unit act" where
  "show_deferred_events_action_helper = collaborator ShowDeferredEventsActionHelper ()"

section \<open>Python primitives used by the module\<close>

text \<open>
  \<open>str.isspace\<close> on the code points below 256, and \<open>str.split()\<close> without argument:
  runs of whitespace separate the tokens and no token is empty.
\<close>

definition is_space :: "char \<Rightarrow> bool" where
  "is_space c = ((of_char c :: nat) \<in> {9, 10, 11, 12, 13, 28, 29, 30, 31, 32, 133, 160})"

fun split_from :: "string \<Rightarrow> string \<Rightarrow> string list" where
  "split_from cur [] = (if cur = [] then [] else [cur])"
| "split_from cur (c # cs) =
     (if is_space c
      then (if cur = [] then split_from [] cs else cur # split_from [] cs)
      else split_from (cur @ [c]) cs)"

definition split :: "string \<Rightarrow> string list" where
  "split s = split_from [] s"

text \<open>\<open>x.split()\<close> on an object that is no string raises \<open>AttributeError\<close>.\<close>

definition no_attribute :: "string \<Rightarrow> string \<Rightarrow> string" where
  "no_attribute ty attr =
     [CHR 0x27] @ ty @ [CHR 0x27] @ '' object has no attribute '' @ [CHR 0x27] @ attr @ [CHR 0x27]"

fun split_method :: "pval \<Rightarrow> string list act" where
  "split_method (PStr s) = return_act (split s)"
| "split_method PNone = raise_act (no_attribute ''NoneType'' ''split'')"
| "split_method (PBool b) = raise_act (no_attribute ''bool'' ''split'')"

text \<open>\<open>os.path.basename\<close>: what follows the last slash.\<close>

definition basename :: "string \<Rightarrow> string" where
  "basename p = rev (takeWhile (\<lambda>c. c \<noteq> CHR ''/'') (rev p))"

section \<open>The module\<close>

definition UNIT_REMOVED_MSG :: string where
  "UNIT_REMOVED_MSG = ''Neutron agents were removed from the cloud''"

text \<open>
  The functions whose Python name starts with an underscore carry the prefix \<open>priv_\<close>.
\<close>

definition priv_get_agents_binaries :: "string list act" where
  "priv_get_agents_binaries =
     bind_act (config ''enable-local-dhcp-and-metadata'') (\<lambda>flag.
       return_act
         (if truthy flag
          then [''neutron-openvswitch-agent'', ''neutron-l3-agent'']
                 @ [''neutron-metadata-agent'', ''neutron-dhcp-agent'']
          else [''neutron-openvswitch-agent'', ''neutron-l3-agent'']))"

definition priv_get_agents :: "agent list act" where
  "priv_get_agents =
     bind_act HostInfoContext_call (\<lambda>hi.
     bind_act (get_network_agents_on_host
                 (if use_fqdn_hint hi then host_fqdn hi else host hi)) (\<lambda>agents.
     then_act (if agents = [] then log ''No agents registered'' (Some WARNING)
               else return_act ())
    (bind_act priv_get_agents_binaries (\<lambda>agents_binaries.
     return_act (filter (\<lambda>a. binary a \<in> set agents_binaries) agents)))))"

definition priv_set_agents :: "bool \<Rightarrow> unit act" where
  "priv_set_agents state =
     then_act get_neutron
    (bind_act priv_get_agents (\<lambda>agents.
     then_act (for_each (\<lambda>a. update_agent (agent_id a) state) agents)
              (log (''Set neutron agents to admin_state_up: ''
                      @ (if state then ''True'' else ''False'')) None)))"

definition disable :: "string list \<Rightarrow> unit act" where
  "disable args = priv_set_agents False"

definition enable :: "string list \<Rightarrow> unit act" where
  "enable args = priv_set_agents True"

definition pause :: "string list \<Rightarrow> unit act" where
  "pause args =
     bind_act register_configs (\<lambda>cfgs. pause_unit_helper cfgs [''openvswitch-switch''])"

definition resume :: "string list \<Rightarrow> unit act" where
  "resume args =
     bind_act register_configs (\<lambda>cfgs. resume_unit_helper cfgs [''openvswitch-switch''])"

definition register_to_cloud :: "string list \<Rightarrow> unit act" where
  "register_to_cloud args =
     then_act (log ''Starting neutron agents'' (Some DEBUG))
    (bind_act priv_get_agents_binaries (\<lambda>agents_binaries.
     then_act (for_each service_resume agents_binaries)
    (bind_act status_get (\<lambda>current_status.
     then_act (if fst current_status = ws_value BLOCKED
                  \<and> snd current_status = UNIT_REMOVED_MSG
               then status_set ACTIVE ''Unit is ready''
               else return_act ())
              (function_set
                 [(''command'', ''openstack network agent list''),
                  (''message'', ''Neutron agents started. Use the openstack command''
                                 @ ''to verify that agents are registered.'')])))))"

definition remove_agent :: "agent \<Rightarrow> unit act" where
  "remove_agent a =
     then_act (if admin_state_up a
               then function_fail ''Consider disabling neutron agents before deletion''
               else return_act ())
    (then_act (service_pause (binary a))
              (delete_agent (agent_id a)))"

definition remove_from_cloud :: "string list \<Rightarrow> unit act" where
  "remove_from_cloud args =
     then_act (log ''Stopping neutron-openvswitch service'' (Some DEBUG))
    (then_act get_neutron
    (bind_act priv_get_agents (\<lambda>agents.
     then_act (for_each remove_agent agents)
    (then_act (log ''Deleted neutron agents'' (Some DEBUG))
    (then_act (status_set BLOCKED UNIT_REMOVED_MSG)
              (function_set [(''message'', UNIT_REMOVED_MSG)]))))))"

definition priv_run_deferred_hooks :: "unit act" where
  "priv_run_deferred_hooks =
     bind_act is_restart_permitted (\<lambda>permitted.
       if \<not> permitted
       then bind_act get_deferred_hooks (\<lambda>hooks.
              if hooks \<noteq> [] \<and> ''config-changed'' \<in> set hooks
              then then_act (config_changed False)
                            (clear_deferred_hook ''config-changed'')
              else return_act ())
       else return_act ())"

definition restart :: "string list \<Rightarrow> unit act" where
  "restart args =
     bind_act (action_get ''deferred-only'') (\<lambda>deferred_only.
     bind_act (bind_act (action_get ''services'') split_method) (\<lambda>services.
       if truthy deferred_only \<and> services \<noteq> []
       then action_fail ''Cannot set deferred-only and services''
       else if \<not> (truthy deferred_only \<or> services \<noteq> [])
       then action_fail ''Please specify deferred-only or services''
       else
         bind_act (action_get ''run-hooks'') (\<lambda>run_hooks.
         then_act (if truthy run_hooks then priv_run_deferred_hooks else return_act ())
        (then_act (if truthy deferred_only
                   then restart_services_action None True
                   else restart_services_action (Some services) False)
                  (bind_act register_configs assess_status)))))"

definition run_deferred_hooks :: "string list \<Rightarrow> unit act" where
  "run_deferred_hooks args =
     then_act priv_run_deferred_hooks
    (then_act (restart_services_action None True)
              (bind_act register_configs assess_status))"

definition show_deferred_events :: "string list \<Rightarrow> unit act" where
  "show_deferred_events args = show_deferred_events_action_helper"

text \<open>The dictionary \<open>ACTIONS\<close>, in the order it is written.\<close>

definition ACTIONS :: "(string \<times> (string list \<Rightarrow> unit act)) list" where
  "ACTIONS =
     [(''disable'', disable),
      (''enable'', enable),
      (''pause'', pause),
      (''resume'', resume),
      (''register-to-cloud'', register_to_cloud),
      (''remove-from-cloud'', remove_from_cloud),
      (''restart-services'', restart),
      (''show-deferred-events'', show_deferred_events),
      (''run-deferred-hooks'', run_deferred_hooks)]"

text \<open>
  \<open>main\<close> returns the message for an unknown action and \<open>None\<close> otherwise. \<open>args[0]\<close> on
  an empty list raises \<open>IndexError\<close> outside every \<open>try\<close>.
\<close>

fun main :: "string list \<Rightarrow> string option act" where
  "main [] = raise_act ''list index out of range''"
| "main (a0 # rest) =
     (case map_of ACTIONS (basename a0) of
        None \<Rightarrow>
          then_act (action_fail (''Action '' @ basename a0 @ '' undefined''))
                   (return_act (Some (''Action '' @ basename a0 @ '' undefined'')))
      | Some action \<Rightarrow>
          (\<lambda>w. case action (a0 # rest) w of
                  (Inr _, w') \<Rightarrow> (Inr None, w')
                | (Inl e, w') \<Rightarrow>
                    then_act (action_fail (''Action '' @ basename a0 @ '' failed: '' @ e))
                             (return_act None) w'))"

section \<open>Vocabulary of the statements\<close>

text \<open>A world in which no collaborator call raises.\<close>

definition no_faults :: "world \<Rightarrow> bool" where
  "no_faults w = (raises w = (\<lambda>tr c. None))"

text \<open>The calls made between an earlier world and a later one.\<close>

definition new_calls :: "world \<Rightarrow> world \<Rightarrow> call list" where
  "new_calls w w' = drop (length (trace w)) (trace w')"

text \<open>
  The specification's reading of the agent registry accessor, to be compared with
  \<open>priv_get_agents\<close>: the host identity chosen by the hint, the role set of binaries, the
  agents of that role among those the API returns, and the calls one query makes.
\<close>

definition spec_host_name :: "world \<Rightarrow> string" where
  "spec_host_name w =
     (if use_fqdn_hint (host_info_ctx w) then host_fqdn (host_info_ctx w)
      else host (host_info_ctx w))"

definition spec_role_binaries :: "world \<Rightarrow> string set" where
  "spec_role_binaries w =
     {''neutron-openvswitch-agent'', ''neutron-l3-agent''} \<union>
     (if truthy (config_store w ''enable-local-dhcp-and-metadata'')
      then {''neutron-metadata-agent'', ''neutron-dhcp-agent''} else {})"

definition spec_relevant_agents :: "world \<Rightarrow> agent list" where
  "spec_relevant_agents w =
     filter (\<lambda>a. binary a \<in> spec_role_binaries w) (api_agents w (spec_host_name w))"

definition spec_query_calls :: "world \<Rightarrow> call list" where
  "spec_query_calls w =
     [HostInfoContext, GetNetworkAgentsOnHost (spec_host_name w)]
     @ (if api_agents w (spec_host_name w) = []
        then [Log ''No agents registered'' (Some WARNING)] else [])
     @ [Config ''enable-local-dhcp-and-metadata'']"

text \<open>What the specification asks of remove-from-cloud for one agent.\<close>

definition spec_removal_calls :: "agent \<Rightarrow> call list" where
  "spec_removal_calls a =
     (if admin_state_up a
      then [FunctionFail ''Consider disabling neutron agents before deletion''] else [])
     @ [ServicePause (binary a), DeleteAgent (agent_id a)]"

section \<open>Concrete worlds\<close>

text \<open>Three agents on one host, in the shape of the unit tests' data.\<close>

definition ovs_agent :: agent where
  "ovs_agent = \<lparr>agent_id = ''810c64f7'', agent_type = ''Open vSwitch agent'',
     binary = ''neutron-openvswitch-agent'', agent_host = ''ovs-13'', admin_state_up = True\<rparr>"

definition dhcp_agent :: agent where
  "dhcp_agent = \<lparr>agent_id = ''03869b4a'', agent_type = ''DHCP agent'',
     binary = ''neutron-dhcp-agent'', agent_host = ''ovs-13'', admin_state_up = True\<rparr>"

definition l3_agent :: agent where
  "l3_agent = \<lparr>agent_id = ''f5bc7b8e'', agent_type = ''L3 agent'',
     binary = ''neutron-l3-agent'', agent_host = ''ovs-13'', admin_state_up = False\<rparr>"

text \<open>
  Nothing raises; local DHCP and metadata are off; the unit was removed from the cloud;
  restarts are not permitted and the config-changed hook is deferred; the services
  parameter is blank and deferred-only is false.
\<close>

definition quiet_world :: world where
  "quiet_world =
     \<lparr>trace = [], raises = (\<lambda>tr c. None),
      config_store = (\<lambda>k. PNone),
      action_params = (\<lambda>k. if k = ''services'' then PStr ''  '' else PBool False),
      status = (''blocked'', ''Neutron agents were removed from the cloud''),
      host_info_ctx = \<lparr>use_fqdn_hint = False, host_fqdn = ''ovs-13.maas'', host = ''ovs-13''\<rparr>,
      api_agents = (\<lambda>h. if h = ''ovs-13'' then [ovs_agent, dhcp_agent, l3_agent] else []),
      restart_permitted = False,
      deferred_hooks = [''config-changed''],
      configs = ''test-config''\<rparr>"

text \<open>The same, with restarts permitted.\<close>

definition permitted_world :: world where
  "permitted_world = quiet_world\<lparr>restart_permitted := True\<rparr>"

text \<open>The same, but the pause helper raises.\<close>

definition failing_world :: world where
  "failing_world =
     quiet_world\<lparr>raises := (\<lambda>tr c. if c = PauseUnitHelper ''test-config'' [''openvswitch-switch'']
                                    then Some ''uh oh'' else None)\<rparr>"

text \<open>The same, but no action parameter has a value.\<close>

definition absent_world :: world where
  "absent_world = quiet_world\<lparr>action_params := (\<lambda>k. PNone)\<rparr>"



text \<open>
  Local DHCP and metadata on, the unit blocked for another reason, no agent registered.
\<close>

definition unrelated_world :: world where
  "unrelated_world =
     quiet_world\<lparr>config_store := (\<lambda>k. if k = ''enable-local-dhcp-and-metadata''
                                         then PBool True else PNone),
                 status := (''blocked'', ''Unrelated reason for blocked status''),
                 api_agents := (\<lambda>h. [])\<rparr>"

section \<open>Runs without faults\<close>

lemma no_faults_record_call [simp]: "no_faults (record_call c w) = no_faults w"
  by (simp add: no_faults_def record_call_def)

lemma no_faults_trace_update [simp]: "no_faults (w\<lparr>trace := t\<rparr>) = no_faults w"
  by (simp add: no_faults_def)

lemma no_faults_status_update [simp]: "no_faults (w\<lparr>status := s\<rparr>) = no_faults w"
  by (simp add: no_faults_def)

lemma collaborator_no_faults:
  "no_faults w \<Longrightarrow> collaborator c v w = (Inr v, record_call c w)"
  by (simp add: collaborator_def no_faults_def)

text \<open>A loop whose body only appends calls appends them for every element, in order.\<close>

lemma for_each_no_faults:
  assumes body: "\<And>x w. no_faults w \<Longrightarrow> body x w = (Inr (), w\<lparr>trace := trace w @ calls x\<rparr>)"
  shows "no_faults w \<Longrightarrow>
         for_each body xs w = (Inr (), w\<lparr>trace := trace w @ concat (map calls xs)\<rparr>)"
proof (induction xs arbitrary: w)
  case Nil
  then show ?case by (simp add: return_act_def)
next
  case (Cons x xs)
  have "for_each body (x # xs) w = for_each body xs (w\<lparr>trace := trace w @ calls x\<rparr>)"
    using body [OF Cons.prems] by (simp add: then_act_def bind_act_def)
  also have "\<dots> = (Inr (), w\<lparr>trace := trace w @ calls x @ concat (map calls xs)\<rparr>)"
    using Cons.IH [of "w\<lparr>trace := trace w @ calls x\<rparr>"] Cons.prems by simp
  finally show ?case by simp
qed

lemma spec_relevant_agents_trace [simp]:
  "spec_relevant_agents (w\<lparr>trace := t\<rparr>) = spec_relevant_agents w"
  by (simp add: spec_relevant_agents_def spec_role_binaries_def spec_host_name_def)

lemma spec_query_calls_trace [simp]:
  "spec_query_calls (w\<lparr>trace := t\<rparr>) = spec_query_calls w"
  by (simp add: spec_query_calls_def spec_host_name_def)

lemma get_agents_binaries_eval:
  "priv_get_agents_binaries w =
     (Inr (if truthy (config_store w ''enable-local-dhcp-and-metadata'')
           then [''neutron-openvswitch-agent'', ''neutron-l3-agent'',
                 ''neutron-metadata-agent'', ''neutron-dhcp-agent'']
           else [''neutron-openvswitch-agent'', ''neutron-l3-agent'']),
      w\<lparr>trace := trace w @ [Config ''enable-local-dhcp-and-metadata'']\<rparr>)"
  by (simp add: priv_get_agents_binaries_def config_def hookenv_def bind_act_def
        return_act_def record_call_def)

lemma get_agents_eval:
  assumes "no_faults w"
  shows "priv_get_agents w =
           (Inr (spec_relevant_agents w), w\<lparr>trace := trace w @ spec_query_calls w\<rparr>)"
proof -
  have flt: "filter (\<lambda>a. binary a \<in> set (if truthy (config_store w ''enable-local-dhcp-and-metadata'')
           then [''neutron-openvswitch-agent'', ''neutron-l3-agent'',
                 ''neutron-metadata-agent'', ''neutron-dhcp-agent'']
           else [''neutron-openvswitch-agent'', ''neutron-l3-agent''])) xs
        = filter (\<lambda>a. binary a \<in> spec_role_binaries w) xs" for xs
    by (rule filter_cong) (auto simp add: spec_role_binaries_def)
  show ?thesis
    using assms
    by (simp add: priv_get_agents_def bind_act_def then_act_def log_def hookenv_def
        return_act_def get_agents_binaries_eval record_call_def spec_relevant_agents_def
        spec_query_calls_def flt HostInfoContext_call_def get_network_agents_on_host_def
        collaborator_no_faults spec_host_name_def)
qed

lemma remove_agent_eval:
  "no_faults w \<Longrightarrow>
   remove_agent a w = (Inr (), w\<lparr>trace := trace w @ spec_removal_calls a\<rparr>)"
  by (simp add: remove_agent_def then_act_def bind_act_def function_fail_def hookenv_def
      return_act_def service_pause_def delete_agent_def collaborator_no_faults record_call_def
      spec_removal_calls_def)

lemma update_agent_eval:
  "no_faults w \<Longrightarrow>
   update_agent (agent_id a) st w = (Inr (), w\<lparr>trace := trace w @ [UpdateAgent (agent_id a) st]\<rparr>)"
  by (simp add: update_agent_def collaborator_no_faults record_call_def)

lemma service_resume_eval:
  "no_faults w \<Longrightarrow>
   service_resume b w = (Inr (), w\<lparr>trace := trace w @ [ServiceResume b]\<rparr>)"
  by (simp add: service_resume_def collaborator_no_faults record_call_def)

lemma get_neutron_eval:
  "no_faults w \<Longrightarrow> get_neutron w = (Inr (), w\<lparr>trace := trace w @ [GetNeutron]\<rparr>)"
  by (simp add: get_neutron_def collaborator_no_faults record_call_def)

lemma run_deferred_hooks_calls:
  "set (new_calls w (snd (priv_run_deferred_hooks w))) \<subseteq>
     {IsRestartPermitted, GetDeferredHooks, ConfigChanged False,
      ClearDeferredHook ''config-changed''}"
  by (simp add: new_calls_def priv_run_deferred_hooks_def bind_act_def then_act_def
      is_restart_permitted_def get_deferred_hooks_def config_changed_def clear_deferred_hook_def
      collaborator_def record_call_def return_act_def split: option.splits)

lemma run_deferred_hooks_eval:
  assumes "no_faults w"
  shows "priv_run_deferred_hooks w =
           (Inr (), w\<lparr>trace := trace w @
              (if restart_permitted w then [IsRestartPermitted]
               else if ''config-changed'' \<in> set (deferred_hooks w)
               then [IsRestartPermitted, GetDeferredHooks,
                     ConfigChanged False, ClearDeferredHook ''config-changed'']
               else [IsRestartPermitted, GetDeferredHooks])\<rparr>)"
  using assms
  by (auto simp add: priv_run_deferred_hooks_def is_restart_permitted_def get_deferred_hooks_def
        config_changed_def clear_deferred_hook_def collaborator_no_faults bind_act_def then_act_def
        return_act_def record_call_def)



section \<open>The deferred-hook runner\<close>

text \<open>
  C1, as the module has it. The claim puts the replay under "a restart is permitted"; the
  guard in the source is \<open>if not deferred_events.is_restart_permitted()\<close>. So: whatever
  the collaborators do, the runner calls nothing but the permission query, the query for the
  deferred hook names, the config-changed handler with \<open>check_deferred_restarts=False\<close> and
  the clearing of the marker of \<open>config-changed\<close>; no other hook is replayed or cleared.
  When no call raises, it asks for the permission and stops there if a restart is permitted;
  if a restart is not permitted it asks for the deferred hook names and, when
  \<open>config-changed\<close> is among them, runs that handler with re-deferral suppressed and then
  clears its marker.
\<close>

theorem run_deferred_hooks_only_when_blocked:
  "set (new_calls w (snd (priv_run_deferred_hooks w))) \<subseteq>
     {IsRestartPermitted, GetDeferredHooks, ConfigChanged False,
      ClearDeferredHook ''config-changed''}
   \<and> (no_faults w \<longrightarrow>
        priv_run_deferred_hooks w =
          (Inr (), w\<lparr>trace := trace w @
             (if restart_permitted w then [IsRestartPermitted]
              else if ''config-changed'' \<in> set (deferred_hooks w)
              then [IsRestartPermitted, GetDeferredHooks,
                    ConfigChanged False, ClearDeferredHook ''config-changed'']
              else [IsRestartPermitted, GetDeferredHooks])\<rparr>))"
  using run_deferred_hooks_calls [of w] run_deferred_hooks_eval [of w]
  by blast

theorem run_deferred_hooks_only_when_blocked_witness:
  "no_faults quiet_world \<and>
   priv_run_deferred_hooks quiet_world =
     (Inr (), quiet_world\<lparr>trace := [IsRestartPermitted, GetDeferredHooks,
                     ConfigChanged False, ClearDeferredHook ''config-changed'']\<rparr>)"
  using run_deferred_hooks_only_when_blocked [of quiet_world]
  by (simp add: quiet_world_def no_faults_def)

text \<open>
  C1 as stated fails both ways. With a restart not permitted and \<open>config-changed\<close>
  deferred, the runner is no no-op: it replays the hook and clears the marker. With a
  restart permitted and \<open>config-changed\<close> deferred, it does not even ask for the hook names.
\<close>

theorem run_deferred_hooks_counterexample:
  "\<not> restart_permitted quiet_world \<and>
   trace (snd (priv_run_deferred_hooks quiet_world)) =
     [IsRestartPermitted, GetDeferredHooks, ConfigChanged False,
      ClearDeferredHook ''config-changed''] \<and>
   restart_permitted permitted_world \<and>
   ''config-changed'' \<in> set (deferred_hooks permitted_world) \<and>
   trace (snd (priv_run_deferred_hooks permitted_world)) = [IsRestartPermitted]"
  by (simp add: permitted_world_def quiet_world_def priv_run_deferred_hooks_def bind_act_def
      then_act_def is_restart_permitted_def get_deferred_hooks_def config_changed_def
      clear_deferred_hook_def collaborator_def record_call_def return_act_def)

section \<open>Validation of the restart-services arguments\<close>



text \<open>
  C10. When the parameter store has no value for \<open>services\<close>, \<open>restart\<close> raises the
  \<open>AttributeError\<close> of \<open>None.split()\<close> right after reading its two parameters, before any
  argument error is reported; run through \<open>main\<close> under the name restart-services, the
  outcome is the failure "Action restart-services failed: ..." of the catch-all.
\<close>

theorem restart_without_services_faults:
  assumes "action_params w ''services'' = PNone"
  shows "restart args w =
           (Inl (no_attribute ''NoneType'' ''split''),
            w\<lparr>trace := trace w @ [ActionGet ''deferred-only'', ActionGet ''services'']\<rparr>)
         \<and> (basename a0 = ''restart-services'' \<longrightarrow>
              main (a0 # rest) w =
                (Inr None,
                 w\<lparr>trace := trace w @
                     [ActionGet ''deferred-only'', ActionGet ''services'',
                      ActionFail (''Action restart-services failed: ''
                                    @ no_attribute ''NoneType'' ''split'')]\<rparr>))"
proof -
  have r: "restart xs w =
           (Inl (no_attribute ''NoneType'' ''split''),
            w\<lparr>trace := trace w @ [ActionGet ''deferred-only'', ActionGet ''services'']\<rparr>)" for xs
    using assms
    by (simp add: restart_def bind_act_def action_get_def hookenv_def record_call_def
        raise_act_def)
  show ?thesis
    by (simp add: r ACTIONS_def then_act_def bind_act_def action_fail_def hookenv_def
        record_call_def return_act_def)
qed

theorem restart_without_services_faults_witness:
  "action_params absent_world ''services'' = PNone \<and>
   basename ''actions/restart-services'' = ''restart-services'' \<and>
   main [''actions/restart-services''] absent_world =
     (Inr None,
      absent_world\<lparr>trace := [ActionGet ''deferred-only'', ActionGet ''services'',
         ActionFail (''Action restart-services failed: '' @ no_attribute ''NoneType'' ''split'')]\<rparr>)"
  using restart_without_services_faults [of absent_world "[]" "''actions/restart-services''" "[]"]
  by (simp add: absent_world_def quiet_world_def basename_def)

section \<open>Removal from and registration to the cloud\<close>

text \<open>
  C3. When no call raises, remove-from-cloud logs, obtains the client, queries the relevant
  agents and then handles them in the order of the list: for an agent whose admin flag is
  up it reports "Consider disabling neutron agents before deletion" and goes on; for every
  agent, enabled or not, it pauses the service named by the agent's binary and then deletes
  the agent. After the loop it logs, sets the unit status to (BLOCKED, "Neutron agents were
  removed from the cloud") and reports that message as the result of the action.
\<close>

theorem remove_from_cloud_trace:
  assumes "no_faults w"
  shows "remove_from_cloud args w =
           (Inr (),
            w\<lparr>trace := trace w
                 @ [Log ''Stopping neutron-openvswitch service'' (Some DEBUG), GetNeutron]
                 @ spec_query_calls w
                 @ concat (map spec_removal_calls (spec_relevant_agents w))
                 @ [Log ''Deleted neutron agents'' (Some DEBUG),
                    StatusSet BLOCKED ''Neutron agents were removed from the cloud'',
                    FunctionSet [(''message'', ''Neutron agents were removed from the cloud'')]],
               status := (''blocked'', ''Neutron agents were removed from the cloud'')\<rparr>)"
proof -
  note loop = for_each_no_faults [where body = remove_agent and calls = spec_removal_calls,
      OF remove_agent_eval]
  show ?thesis
    using assms
    by (simp add: remove_from_cloud_def then_act_def bind_act_def log_def hookenv_def
        get_neutron_eval get_agents_eval loop status_set_def function_set_def record_call_def
        UNIT_REMOVED_MSG_def)
qed

theorem remove_from_cloud_trace_witness:
  "no_faults quiet_world \<and>
   remove_from_cloud [] quiet_world =
     (Inr (),
      quiet_world\<lparr>trace :=
         [Log ''Stopping neutron-openvswitch service'' (Some DEBUG), GetNeutron,
          HostInfoContext, GetNetworkAgentsOnHost ''ovs-13'',
          Config ''enable-local-dhcp-and-metadata'',
          FunctionFail ''Consider disabling neutron agents before deletion'',
          ServicePause ''neutron-openvswitch-agent'', DeleteAgent ''810c64f7'',
          ServicePause ''neutron-l3-agent'', DeleteAgent ''f5bc7b8e'',
          Log ''Deleted neutron agents'' (Some DEBUG),
          StatusSet BLOCKED ''Neutron agents were removed from the cloud'',
          FunctionSet [(''message'', ''Neutron agents were removed from the cloud'')]]\<rparr>)"
  using remove_from_cloud_trace [of quiet_world "[]"]
  by (simp add: quiet_world_def no_faults_def spec_query_calls_def spec_host_name_def
      spec_relevant_agents_def spec_role_binaries_def spec_removal_calls_def
      ovs_agent_def dhcp_agent_def l3_agent_def)

text \<open>
  C4. When no call raises, register-to-cloud resumes the service of every binary of the
  role, the list being computed from the configuration flag alone (the neutron API is not
  asked); it then reads the status and writes (ACTIVE, "Unit is ready") exactly when the
  status read is (BLOCKED, "Neutron agents were removed from the cloud"), leaving the status
  store alone otherwise; in both cases it ends by reporting the command
  \<open>openstack network agent list\<close> and its message.
\<close>

theorem register_to_cloud_status:
  assumes "no_faults w"
  shows "register_to_cloud args w =
           (Inr (),
            w\<lparr>trace := trace w
                 @ [Log ''Starting neutron agents'' (Some DEBUG),
                    Config ''enable-local-dhcp-and-metadata'']
                 @ map ServiceResume
                     ([''neutron-openvswitch-agent'', ''neutron-l3-agent'']
                      @ (if truthy (config_store w ''enable-local-dhcp-and-metadata'')
                         then [''neutron-metadata-agent'', ''neutron-dhcp-agent''] else []))
                 @ [StatusGet]
                 @ (if status w = (''blocked'', ''Neutron agents were removed from the cloud'')
                    then [StatusSet ACTIVE ''Unit is ready''] else [])
                 @ [FunctionSet
                      [(''command'', ''openstack network agent list''),
                       (''message'', ''Neutron agents started. Use the openstack commandto verify that agents are registered.'')]],
               status := (if status w = (''blocked'', ''Neutron agents were removed from the cloud'')
                          then (''active'', ''Unit is ready'') else status w)\<rparr>)"
proof -
  have loop: "no_faults v \<Longrightarrow>
      for_each service_resume bs v = (Inr (), v\<lparr>trace := trace v @ map ServiceResume bs\<rparr>)" for v bs
    using for_each_no_faults [where body = service_resume and calls = "\<lambda>b. [ServiceResume b]"
        and w = v and xs = bs, OF service_resume_eval]
    by (simp add: concat_map_singleton)
  have st: "(fst (status w) = ''blocked'' \<and> snd (status w) = ''Neutron agents were removed from the cloud'')
      = (status w = (''blocked'', ''Neutron agents were removed from the cloud''))"
    by (cases "status w") simp
  show ?thesis
    using assms
    by (simp add: register_to_cloud_def then_act_def bind_act_def log_def hookenv_def
        get_agents_binaries_eval loop status_get_def status_set_def function_set_def
        record_call_def return_act_def UNIT_REMOVED_MSG_def st)
qed

theorem register_to_cloud_status_witness:
  "no_faults quiet_world \<and> no_faults unrelated_world \<and>
   register_to_cloud [] quiet_world =
     (Inr (),
      quiet_world\<lparr>trace :=
         [Log ''Starting neutron agents'' (Some DEBUG),
          Config ''enable-local-dhcp-and-metadata'',
          ServiceResume ''neutron-openvswitch-agent'', ServiceResume ''neutron-l3-agent'',
          StatusGet, StatusSet ACTIVE ''Unit is ready'',
          FunctionSet
            [(''command'', ''openstack network agent list''),
             (''message'', ''Neutron agents started. Use the openstack commandto verify that agents are registered.'')]],
        status := (''active'', ''Unit is ready'')\<rparr>) \<and>
   register_to_cloud [] unrelated_world =
     (Inr (),
      unrelated_world\<lparr>trace :=
         [Log ''Starting neutron agents'' (Some DEBUG),
          Config ''enable-local-dhcp-and-metadata'',
          ServiceResume ''neutron-openvswitch-agent'', ServiceResume ''neutron-l3-agent'',
          ServiceResume ''neutron-metadata-agent'', ServiceResume ''neutron-dhcp-agent'',
          StatusGet,
          FunctionSet
            [(''command'', ''openstack network agent list''),
             (''message'', ''Neutron agents started. Use the openstack commandto verify that agents are registered.'')]]\<rparr>)"
  using register_to_cloud_status [of quiet_world "[]"]
        register_to_cloud_status [of unrelated_world "[]"]
  by (simp add: quiet_world_def unrelated_world_def no_faults_def)

section \<open>Agent registry and admin state\<close>

text \<open>
  C7. When no call raises, the accessor returns, of the agents the API lists for the host,
  exactly those whose binary is neutron-openvswitch-agent or neutron-l3-agent, and also
  those whose binary is neutron-metadata-agent or neutron-dhcp-agent if and only if the
  flag enable-local-dhcp-and-metadata is set, in the order of the API's list. When the API
  lists no agent, it logs the warning "No agents registered" and returns the empty list.
\<close>

theorem get_agents_filters_by_role:
  assumes "no_faults w"
  shows "fst (priv_get_agents w) =
           Inr (filter (\<lambda>a. binary a \<in>
                   {''neutron-openvswitch-agent'', ''neutron-l3-agent''} \<union>
                   (if truthy (config_store w ''enable-local-dhcp-and-metadata'')
                    then {''neutron-metadata-agent'', ''neutron-dhcp-agent''} else {}))
                  (api_agents w (spec_host_name w)))
         \<and> (api_agents w (spec_host_name w) = [] \<longrightarrow>
              priv_get_agents w =
                (Inr [], w\<lparr>trace := trace w @
                    [HostInfoContext, GetNetworkAgentsOnHost (spec_host_name w),
                     Log ''No agents registered'' (Some WARNING),
                     Config ''enable-local-dhcp-and-metadata'']\<rparr>))"
  using assms
  by (simp add: get_agents_eval spec_relevant_agents_def spec_role_binaries_def
      spec_query_calls_def)

theorem get_agents_filters_by_role_witness:
  "no_faults quiet_world \<and> no_faults unrelated_world \<and>
   fst (priv_get_agents quiet_world) = Inr [ovs_agent, l3_agent] \<and>
   api_agents unrelated_world (spec_host_name unrelated_world) = [] \<and>
   priv_get_agents unrelated_world =
     (Inr [], unrelated_world\<lparr>trace :=
         [HostInfoContext, GetNetworkAgentsOnHost ''ovs-13'',
          Log ''No agents registered'' (Some WARNING),
          Config ''enable-local-dhcp-and-metadata'']\<rparr>)"
  using get_agents_filters_by_role [of quiet_world]
        get_agents_filters_by_role [of unrelated_world]
  by (simp add: quiet_world_def unrelated_world_def no_faults_def spec_host_name_def
      ovs_agent_def dhcp_agent_def l3_agent_def)

text \<open>
  C8. When no call raises, \<open>_set_agents(state)\<close> obtains the client, queries the relevant
  agents, issues one \<open>update_agent\<close> call per relevant agent, in order, each setting
  \<open>admin_state_up\<close> to \<open>state\<close>, and logs the end state. \<open>disable\<close> is one call of
  \<open>_set_agents\<close> with false and \<open>enable\<close> one call with true, whatever their argument.
\<close>

theorem set_agents_updates_each:
  assumes "no_faults w"
  shows "priv_set_agents state w =
           (Inr (),
            w\<lparr>trace := trace w @ [GetNeutron] @ spec_query_calls w
                 @ map (\<lambda>a. UpdateAgent (agent_id a) state) (spec_relevant_agents w)
                 @ [Log (''Set neutron agents to admin_state_up: ''
                          @ (if state then ''True'' else ''False'')) None]\<rparr>)
         \<and> disable args = priv_set_agents False
         \<and> enable args = priv_set_agents True"
proof -
  have loop: "no_faults v \<Longrightarrow>
      for_each (\<lambda>a. update_agent (agent_id a) state) xs v
        = (Inr (), v\<lparr>trace := trace v @ map (\<lambda>a. UpdateAgent (agent_id a) state) xs\<rparr>)" for v xs
    using for_each_no_faults [where body = "\<lambda>a. update_agent (agent_id a) state"
        and calls = "\<lambda>a. [UpdateAgent (agent_id a) state]" and w = v and xs = xs,
        OF update_agent_eval]
    by (simp add: concat_map_singleton)
  have "priv_set_agents state w =
           (Inr (),
            w\<lparr>trace := trace w @ [GetNeutron] @ spec_query_calls w
                 @ map (\<lambda>a. UpdateAgent (agent_id a) state) (spec_relevant_agents w)
                 @ [Log (''Set neutron agents to admin_state_up: ''
                          @ (if state then ''True'' else ''False'')) None]\<rparr>)"
    using assms
    by (simp add: priv_set_agents_def then_act_def bind_act_def get_neutron_eval get_agents_eval
        loop log_def hookenv_def record_call_def)
  then show ?thesis
    by (simp add: disable_def enable_def fun_eq_iff)
qed

theorem set_agents_updates_each_witness:
  "no_faults quiet_world \<and>
   disable [] quiet_world =
     (Inr (),
      quiet_world\<lparr>trace :=
         [GetNeutron, HostInfoContext, GetNetworkAgentsOnHost ''ovs-13'',
          Config ''enable-local-dhcp-and-metadata'',
          UpdateAgent ''810c64f7'' False, UpdateAgent ''f5bc7b8e'' False,
          Log ''Set neutron agents to admin_state_up: False'' None]\<rparr>)"
  using set_agents_updates_each [of quiet_world False "[]"]
  by (simp add: quiet_world_def no_faults_def spec_query_calls_def spec_host_name_def
      spec_relevant_agents_def spec_role_binaries_def
      ovs_agent_def dhcp_agent_def l3_agent_def)

section \<open>Pause and resume\<close>

text \<open>
  C9. \<open>pause\<close> calls \<open>register_configs()\<close> and hands its result to \<open>pause_unit_helper\<close>
  with \<open>exclude_services=['openvswitch-switch']\<close>; \<open>resume\<close> does the same with
  \<open>resume_unit_helper\<close>. These are the only calls either action makes, so the module itself
  never pauses or resumes a service and the helper is always told to leave
  openvswitch-switch alone. An exception raised by a delegate is the outcome of the action,
  with the same message.
\<close>

theorem pause_resume_exclude_switch:
  "pause args w =
     (case raises w (trace w) RegisterConfigs of
        Some e \<Rightarrow> (Inl e, w\<lparr>trace := trace w @ [RegisterConfigs]\<rparr>)
      | None \<Rightarrow>
          (case raises w (trace w @ [RegisterConfigs])
                  (PauseUnitHelper (configs w) [''openvswitch-switch'']) of
             Some e \<Rightarrow> Inl e
           | None \<Rightarrow> Inr (),
           w\<lparr>trace := trace w @
               [RegisterConfigs, PauseUnitHelper (configs w) [''openvswitch-switch'']]\<rparr>))
   \<and> resume args w =
     (case raises w (trace w) RegisterConfigs of
        Some e \<Rightarrow> (Inl e, w\<lparr>trace := trace w @ [RegisterConfigs]\<rparr>)
      | None \<Rightarrow>
          (case raises w (trace w @ [RegisterConfigs])
                  (ResumeUnitHelper (configs w) [''openvswitch-switch'']) of
             Some e \<Rightarrow> Inl e
           | None \<Rightarrow> Inr (),
           w\<lparr>trace := trace w @
               [RegisterConfigs, ResumeUnitHelper (configs w) [''openvswitch-switch'']]\<rparr>))"
  by (simp add: pause_def resume_def bind_act_def register_configs_def pause_unit_helper_def
      resume_unit_helper_def collaborator_def record_call_def split: option.splits)

theorem pause_resume_exclude_switch_witness:
  "pause [] quiet_world =
     (Inr (), quiet_world\<lparr>trace :=
         [RegisterConfigs, PauseUnitHelper ''test-config'' [''openvswitch-switch'']]\<rparr>) \<and>
   resume [] quiet_world =
     (Inr (), quiet_world\<lparr>trace :=
         [RegisterConfigs, ResumeUnitHelper ''test-config'' [''openvswitch-switch'']]\<rparr>) \<and>
   fst (pause [] failing_world) = Inl ''uh oh''"
  using pause_resume_exclude_switch [of "[]" quiet_world]
        pause_resume_exclude_switch [of "[]" failing_world]
  by (simp add: quiet_world_def failing_world_def)

section \<open>The dispatcher\<close>

text \<open>
  C5. For a name in \<open>ACTIONS\<close>: if its handler raises an exception with message \<open>e\<close>,
  \<open>main\<close> catches it, reports "Action name failed: e" with \<open>action_fail\<close> in the world the
  handler left behind, and returns normally.
\<close>

theorem main_catches_handler_fault:
  assumes "map_of ACTIONS (basename a0) = Some action"
      and "action (a0 # rest) w = (Inl e, w')"
  shows "main (a0 # rest) w =
           (Inr None,
            w'\<lparr>trace := trace w' @ [ActionFail (''Action '' @ basename a0 @ '' failed: '' @ e)]\<rparr>)"
  using assms
  by (simp add: then_act_def bind_act_def action_fail_def hookenv_def record_call_def
      return_act_def)

theorem main_catches_handler_fault_witness:
  "map_of ACTIONS (basename ''actions/pause'') = Some pause \<and>
   pause [''actions/pause''] failing_world =
     (Inl ''uh oh'', failing_world\<lparr>trace :=
         [RegisterConfigs, PauseUnitHelper ''test-config'' [''openvswitch-switch'']]\<rparr>) \<and>
   main [''actions/pause''] failing_world =
     (Inr None, failing_world\<lparr>trace :=
         [RegisterConfigs, PauseUnitHelper ''test-config'' [''openvswitch-switch''],
          ActionFail ''Action pause failed: uh oh'']\<rparr>)"
proof -
  have a: "map_of ACTIONS (basename ''actions/pause'') = Some pause"
    by (simp add: ACTIONS_def basename_def)
  have b: "pause [''actions/pause''] failing_world =
     (Inl ''uh oh'', failing_world\<lparr>trace :=
         [RegisterConfigs, PauseUnitHelper ''test-config'' [''openvswitch-switch'']]\<rparr>)"
    by (simp add: pause_def bind_act_def register_configs_def pause_unit_helper_def
        collaborator_def record_call_def failing_world_def quiet_world_def)
  show ?thesis
    using main_catches_handler_fault [OF a b] a b
    by (simp add: basename_def)
qed

text \<open>
  C6. \<open>ACTIONS\<close> has the nine names listed. For any other name, \<open>main\<close> reports
  "Action name undefined" with \<open>action_fail\<close>, makes no other call (no handler runs),
  returns that same string and raises nothing.
\<close>

theorem main_unknown_action:
  assumes "basename a0 \<notin> {''disable'', ''enable'', ''pause'', ''resume'', ''register-to-cloud'',
             ''remove-from-cloud'', ''restart-services'', ''show-deferred-events'',
             ''run-deferred-hooks''}"
  shows "main (a0 # rest) w =
           (Inr (Some (''Action '' @ basename a0 @ '' undefined'')),
            w\<lparr>trace := trace w @ [ActionFail (''Action '' @ basename a0 @ '' undefined'')]\<rparr>)
         \<and> map fst ACTIONS = [''disable'', ''enable'', ''pause'', ''resume'', ''register-to-cloud'',
             ''remove-from-cloud'', ''restart-services'', ''show-deferred-events'',
             ''run-deferred-hooks'']"
proof -
  have "map_of ACTIONS (basename a0) = None"
    using assms by (simp add: ACTIONS_def)
  then show ?thesis
    by (simp add: then_act_def bind_act_def action_fail_def hookenv_def record_call_def
      return_act_def) (simp add: ACTIONS_def)
qed

theorem main_unknown_action_witness:
  "main [''foo''] quiet_world =
     (Inr (Some ''Action foo undefined''),
      quiet_world\<lparr>trace := [ActionFail ''Action foo undefined'']\<rparr>)"
  using main_unknown_action [of "''foo''" "[]" quiet_world]
  by (simp add: basename_def quiet_world_def)

end
